theory Spec2Isabelle
  imports Complex_Main
begin

section \<open>Type descriptors and Go values\<close>

text \<open>
  A type descriptor (\<^verbatim>\<open>reflect.Type\<close>) is identified by its name; for a function type it
  also lists the parameter and result types that \<^verbatim>\<open>NumIn\<close>, \<^verbatim>\<open>In\<close>, \<^verbatim>\<open>NumOut\<close> and
  \<^verbatim>\<open>Out\<close> read (non-variadic function types only).
\<close>

datatype rtype = RType (type_name: string) (type_in: "rtype list") (type_out: "rtype list")

text \<open>
  A \<^verbatim>\<open>float64\<close> is read through the number it denotes: the comparisons \<^verbatim>\<open><\<close>, \<^verbatim>\<open>>\<close>
  and \<^verbatim>\<open>==\<close> of Go are exact on denotations, and false whenever an operand is NaN.
\<close>

datatype float64 = NaN | NegInf | Finite real | PosInf

definition float_less :: "float64 \<Rightarrow> float64 \<Rightarrow> bool" where
  "float_less x y =
     (case x of
        NaN \<Rightarrow> False
      | NegInf \<Rightarrow> (case y of NaN \<Rightarrow> False | NegInf \<Rightarrow> False | _ \<Rightarrow> True)
      | Finite a \<Rightarrow> (case y of Finite b \<Rightarrow> a < b | PosInf \<Rightarrow> True | _ \<Rightarrow> False)
      | PosInf \<Rightarrow> False)"

definition float_equal :: "float64 \<Rightarrow> float64 \<Rightarrow> bool" where
  "float_equal x y = (x \<noteq> NaN \<and> y \<noteq> NaN \<and> x = y)"

text \<open>
  Go values. Pointers, slices and maps refer to the store by address, so that shared and
  self-referential structures can be written down. A slice header holds the address of
  its first element, its length and the size of one element; an array holds the size of
  one element; a struct field holds its name, whether the name is exported, whether the
  field is embedded, and its offset in the struct.
\<close>

datatype slice = Slice (s_data: nat) (s_len: nat) (s_esize: nat)

datatype val =
    VBool bool
  | VInt int
  | VUint nat
  | VFloat float64
  | VComplex float64 float64
  | VString string
  | VChan nat
  | VUnsafePointer nat
  | VFunc "nat option"
  | VPtr "nat option"
  | VInterface "tval option"
  | VSlice "slice option"
  | VMap "nat option"
  | VArray nat "tval list"
  | VStruct "struct_field list"
and tval = TV (tv_type: rtype) (tv_val: val)
and struct_field =
  StructField (f_name: string) (f_exported: bool) (f_embedded: bool) (f_offset: nat) (f_value: tval)

text \<open>
  The store: what a pointer or a slice element address holds, the entries of each map in
  the order \<^verbatim>\<open>MapKeys\<close> yields them (none at an address that holds no map), and the
  result of each function value on two arguments: an ordering function is taken to
  return, and to depend on its arguments only.
\<close>

record store =
  cells :: "nat \<rightharpoonup> tval"
  maps :: "nat \<Rightarrow> (tval \<times> tval) list"
  func_result :: "nat \<Rightarrow> tval \<Rightarrow> tval \<Rightarrow> int"


section \<open>The reflection layer\<close>

text \<open>
  The read-only flags of a \<^verbatim>\<open>reflect.Value\<close>: none, \<^verbatim>\<open>flagEmbedRO\<close> alone (read through
  an embedded non-public field), or \<^verbatim>\<open>flagStickyRO\<close> (read through a non-public field that
  is not embedded; once set it stays). \<^verbatim>\<open>CanInterface\<close> and \<^verbatim>\<open>Call\<close> refuse a value with
  either flag.
\<close>

datatype roflag = NotRO | EmbedRO | StickyRO

text \<open>\<^verbatim>\<open>flag.ro()\<close>: a value read from a read-only value is sticky read-only.\<close>

definition ro :: "roflag \<Rightarrow> roflag" where
  "ro f = (if f = NotRO then NotRO else StickyRO)"

text \<open>
  A \<^verbatim>\<open>reflect.Value\<close>: the type descriptor, the address when the value is addressable
  (\<^verbatim>\<open>CanAddr\<close>, \<^verbatim>\<open>UnsafeAddr\<close>), the read-only flags, and the data. The kind of a value
  is read from its data. The invalid zero Value is \<open>None\<close> of \<open>rvalue option\<close>.
\<close>

datatype rvalue =
  RValue (rv_type: rtype) (rv_addr: "nat option") (rv_flag: roflag) (rv_data: val)

definition isRO :: "rvalue \<Rightarrow> bool" where
  "isRO v = (rv_flag v \<noteq> NotRO)"

datatype kind =
    KBool | KInt | KUint | KFloat | KComplex | KString | KChan | KUnsafePointer
  | KFunc | KPtr | KInterface | KSlice | KMap | KArray | KStruct

datatype add_error =
    ExpectedFunc rtype
  | ExpectedTwoIn rtype
  | ExpectedOneOut rtype
  | ExpectedSameArgs rtype
  | ExpectedIntReturn rtype

datatype panic =
    DifferentTypes rtype rtype
  | UnexportedTypePanic "rtype list"
  | NonNilFunctions
  | CannotCompareType rtype
  | ReflectPanic string
  | ErrorPanic add_error

type_synonym visit = "nat \<times> nat \<times> rtype"
type_synonym visited = "visit \<rightharpoonup> int"
type_synonym comparisons = "rtype \<rightharpoonup> rvalue"

definition ValueOf :: "tval option \<Rightarrow> rvalue option" where
  "ValueOf i = (case i of None \<Rightarrow> None | Some a \<Rightarrow> Some (RValue (tv_type a) None NotRO (tv_val a)))"

definition Kind :: "rvalue \<Rightarrow> kind" where
  "Kind v =
     (case rv_data v of
        VBool b \<Rightarrow> KBool
      | VInt i \<Rightarrow> KInt
      | VUint u \<Rightarrow> KUint
      | VFloat f \<Rightarrow> KFloat
      | VComplex re im \<Rightarrow> KComplex
      | VString s \<Rightarrow> KString
      | VChan ch \<Rightarrow> KChan
      | VUnsafePointer p \<Rightarrow> KUnsafePointer
      | VFunc f \<Rightarrow> KFunc
      | VPtr p \<Rightarrow> KPtr
      | VInterface i \<Rightarrow> KInterface
      | VSlice s \<Rightarrow> KSlice
      | VMap m \<Rightarrow> KMap
      | VArray es xs \<Rightarrow> KArray
      | VStruct fs \<Rightarrow> KStruct)"

definition CanAddr :: "rvalue \<Rightarrow> bool" where
  "CanAddr v = (rv_addr v \<noteq> None)"

text \<open>\<^verbatim>\<open>UnsafeAddr\<close> is only called on values that satisfy \<^verbatim>\<open>CanAddr\<close>.\<close>

definition UnsafeAddr :: "rvalue \<Rightarrow> nat" where
  "UnsafeAddr v = (case rv_addr v of Some a \<Rightarrow> a | None \<Rightarrow> 0)"

definition CanInterface :: "rvalue \<Rightarrow> bool" where
  "CanInterface v = (\<not> isRO v)"

definition Interface :: "rvalue \<Rightarrow> tval" where
  "Interface v = TV (rv_type v) (rv_data v)"

definition wrongKind :: "string \<Rightarrow> panic + 'a" where
  "wrongKind method = Inl (ReflectPanic (''reflect: call of reflect.Value.'' @ method @ '' on a Value of another kind''))"

definition rv_Bool :: "rvalue \<Rightarrow> panic + bool" where
  "rv_Bool v = (case rv_data v of VBool b \<Rightarrow> Inr b | _ \<Rightarrow> wrongKind ''Bool'')"

definition rv_Int :: "rvalue \<Rightarrow> panic + int" where
  "rv_Int v = (case rv_data v of VInt i \<Rightarrow> Inr i | _ \<Rightarrow> wrongKind ''Int'')"

definition rv_Uint :: "rvalue \<Rightarrow> panic + nat" where
  "rv_Uint v = (case rv_data v of VUint u \<Rightarrow> Inr u | _ \<Rightarrow> wrongKind ''Uint'')"

definition rv_Float :: "rvalue \<Rightarrow> panic + float64" where
  "rv_Float v = (case rv_data v of VFloat f \<Rightarrow> Inr f | _ \<Rightarrow> wrongKind ''Float'')"

definition rv_String :: "rvalue \<Rightarrow> panic + string" where
  "rv_String v = (case rv_data v of VString s \<Rightarrow> Inr s | _ \<Rightarrow> wrongKind ''String'')"

definition IsNil :: "rvalue \<Rightarrow> panic + bool" where
  "IsNil v =
     (case rv_data v of
        VChan ch \<Rightarrow> Inr (ch = 0)
      | VUnsafePointer p \<Rightarrow> Inr (p = 0)
      | VFunc f \<Rightarrow> Inr (f = None)
      | VPtr p \<Rightarrow> Inr (p = None)
      | VInterface i \<Rightarrow> Inr (i = None)
      | VSlice s \<Rightarrow> Inr (s = None)
      | VMap m \<Rightarrow> Inr (m = None)
      | _ \<Rightarrow> wrongKind ''IsNil'')"

definition Len :: "store \<Rightarrow> rvalue \<Rightarrow> panic + nat" where
  "Len st v =
     (case rv_data v of
        VArray es xs \<Rightarrow> Inr (length xs)
      | VSlice None \<Rightarrow> Inr 0
      | VSlice (Some s) \<Rightarrow> Inr (s_len s)
      | VMap None \<Rightarrow> Inr 0
      | VMap (Some m) \<Rightarrow> Inr (length (maps st m))
      | VString s \<Rightarrow> Inr (length s)
      | _ \<Rightarrow> wrongKind ''Len'')"

definition Pointer :: "rvalue \<Rightarrow> panic + nat" where
  "Pointer v =
     (case rv_data v of
        VSlice None \<Rightarrow> Inr 0
      | VSlice (Some s) \<Rightarrow> Inr (s_data s)
      | VMap None \<Rightarrow> Inr 0
      | VMap (Some m) \<Rightarrow> Inr m
      | VPtr None \<Rightarrow> Inr 0
      | VPtr (Some p) \<Rightarrow> Inr p
      | _ \<Rightarrow> wrongKind ''Pointer'')"

text \<open>
  Reading what an address holds. Go is memory safe, so a well-formed store holds a value
  at every address a pointer or a slice refers to; the model panics elsewhere.
\<close>

definition load :: "store \<Rightarrow> nat \<Rightarrow> roflag \<Rightarrow> panic + rvalue option" where
  "load st a fl =
     (case cells st a of
        None \<Rightarrow> Inl (ReflectPanic ''invalid memory address'')
      | Some x \<Rightarrow> Inr (Some (RValue (tv_type x) (Some a) fl (tv_val x))))"

text \<open>
  \<^verbatim>\<open>Elem\<close> of a nil pointer or nil interface is the invalid Value. The pointee of a
  pointer is addressable and keeps the pointer's read-only flags; the content of an
  interface is not addressable and is read-only when the interface is.
\<close>

definition Elem :: "store \<Rightarrow> rvalue \<Rightarrow> panic + rvalue option" where
  "Elem st v =
     (case rv_data v of
        VPtr None \<Rightarrow> Inr None
      | VPtr (Some p) \<Rightarrow> load st p (rv_flag v)
      | VInterface None \<Rightarrow> Inr None
      | VInterface (Some x) \<Rightarrow> Inr (Some (RValue (tv_type x) None (ro (rv_flag v)) (tv_val x)))
      | _ \<Rightarrow> wrongKind ''Elem'')"

text \<open>
  \<^verbatim>\<open>Index\<close>: an element of an array is addressable when the array is, at the array's
  address plus the element's offset; an element of a slice is always addressable.
\<close>

definition Index :: "store \<Rightarrow> rvalue \<Rightarrow> nat \<Rightarrow> panic + rvalue option" where
  "Index st v i =
     (case rv_data v of
        VArray es xs \<Rightarrow>
          if i < length xs
          then Inr (Some (RValue (tv_type (xs ! i)) (map_option (\<lambda>b. b + i * es) (rv_addr v))
                      (ro (rv_flag v)) (tv_val (xs ! i))))
          else Inl (ReflectPanic ''reflect: array index out of range'')
      | VSlice None \<Rightarrow> Inl (ReflectPanic ''reflect: slice index out of range'')
      | VSlice (Some s) \<Rightarrow>
          if i < s_len s then load st (s_data s + i * s_esize s) (ro (rv_flag v))
          else Inl (ReflectPanic ''reflect: slice index out of range'')
      | _ \<Rightarrow> wrongKind ''Index'')"

definition NumField :: "rvalue \<Rightarrow> panic + nat" where
  "NumField v = (case rv_data v of VStruct fs \<Rightarrow> Inr (length fs) | _ \<Rightarrow> wrongKind ''NumField'')"

text \<open>
  \<^verbatim>\<open>Field\<close>: a field is addressable when the struct is. It keeps the sticky flag of the
  struct; a non-public field adds \<^verbatim>\<open>flagEmbedRO\<close> when it is embedded and
  \<^verbatim>\<open>flagStickyRO\<close> otherwise.
\<close>

definition fieldFlag :: "roflag \<Rightarrow> struct_field \<Rightarrow> roflag" where
  "fieldFlag fl f =
     (if f_exported f then (if fl = StickyRO then StickyRO else NotRO)
      else if f_embedded f then (if fl = StickyRO then StickyRO else EmbedRO)
      else StickyRO)"

definition Field_at :: "rvalue \<Rightarrow> nat \<Rightarrow> panic + rvalue option" where
  "Field_at v i =
     (case rv_data v of
        VStruct fs \<Rightarrow>
          if i < length fs
          then Inr (Some (RValue (tv_type (f_value (fs ! i)))
                      (map_option (\<lambda>b. b + f_offset (fs ! i)) (rv_addr v))
                      (fieldFlag (rv_flag v) (fs ! i))
                      (tv_val (f_value (fs ! i)))))
          else Inl (ReflectPanic ''reflect: Field index out of range'')
      | _ \<Rightarrow> wrongKind ''Field'')"

text \<open>
  \<^verbatim>\<open>MapKeys\<close> yields the keys in the store's order; \<^verbatim>\<open>MapIndex\<close> of an absent key is the
  invalid Value. Keys and entries are not addressable; a key is read-only when the map
  is, an entry when the map or the key is.
\<close>

definition MapKeys :: "store \<Rightarrow> rvalue \<Rightarrow> panic + rvalue list" where
  "MapKeys st v =
     (case rv_data v of
        VMap None \<Rightarrow> Inr []
      | VMap (Some m) \<Rightarrow>
          Inr (map (\<lambda>e. RValue (tv_type (fst e)) None (ro (rv_flag v)) (tv_val (fst e))) (maps st m))
      | _ \<Rightarrow> wrongKind ''MapKeys'')"

definition MapIndex :: "store \<Rightarrow> rvalue \<Rightarrow> rvalue \<Rightarrow> panic + rvalue option" where
  "MapIndex st v k =
     (case rv_data v of
        VMap None \<Rightarrow> Inr None
      | VMap (Some m) \<Rightarrow>
          (case map_of (maps st m) (Interface k) of
             None \<Rightarrow> Inr None
           | Some x \<Rightarrow>
               Inr (Some (RValue (tv_type x) None
                      (if isRO v \<or> isRO k then StickyRO else NotRO) (tv_val x))))
      | _ \<Rightarrow> wrongKind ''MapIndex'')"

text \<open>
  \<^verbatim>\<open>fv.Call([]reflect.Value{v1, v2})[0].Int()\<close>: the function value and both arguments
  must not be read-only, and the function must not be nil.
\<close>

definition Call :: "store \<Rightarrow> rvalue \<Rightarrow> rvalue \<Rightarrow> rvalue \<Rightarrow> panic + int" where
  "Call st fv v1 v2 =
     (case rv_data fv of
        VFunc f \<Rightarrow>
          if isRO fv
          then Inl (ReflectPanic ''reflect: reflect.Value.Call using value obtained using unexported field'')
          else
            (case f of
               None \<Rightarrow> Inl (ReflectPanic ''reflect: call of nil function'')
             | Some g \<Rightarrow>
                 if isRO v1 \<or> isRO v2
                 then Inl (ReflectPanic ''reflect: reflect.Value.Call using value obtained using unexported field'')
                 else Inr (func_result st g (Interface v1) (Interface v2)))
      | _ \<Rightarrow> wrongKind ''Call'')"

section \<open>Scalar comparisons\<close>

definition compareBool :: "bool \<Rightarrow> bool \<Rightarrow> int" where
  "compareBool b1 b2 = (if b1 then (if \<not> b2 then 1 else 0) else if b2 then - 1 else 0)"

definition compareInt64 :: "int \<Rightarrow> int \<Rightarrow> int" where
  "compareInt64 i1 i2 = (if i1 < i2 then - 1 else if i1 > i2 then 1 else 0)"

definition compareFloat64 :: "float64 \<Rightarrow> float64 \<Rightarrow> int" where
  "compareFloat64 f1 f2 = (if float_less f1 f2 then - 1 else if float_less f2 f1 then 1 else 0)"

definition compareUInt64 :: "nat \<Rightarrow> nat \<Rightarrow> int" where
  "compareUInt64 u1 u2 = (if u1 < u2 then - 1 else if u1 > u2 then 1 else 0)"

text \<open>\<^verbatim>\<open>strings.Compare\<close>: the lexicographic order of the bytes.\<close>

fun bytes_less :: "string \<Rightarrow> string \<Rightarrow> bool" where
  "bytes_less [] [] = False"
| "bytes_less [] (y # ys) = True"
| "bytes_less (x # xs) [] = False"
| "bytes_less (x # xs) (y # ys) =
     ((of_char x :: nat) < of_char y \<or> (x = y \<and> bytes_less xs ys))"

definition strings_Compare :: "string \<Rightarrow> string \<Rightarrow> int" where
  "strings_Compare a b = (if a = b then 0 else if bytes_less a b then - 1 else 1)"

text \<open>
  The \<^verbatim>\<open>==\<close> of Go on two interface values of one dynamic type, for the kinds that reach
  the fallback: complex numbers, channels and unsafe pointers.
\<close>

definition go_equal :: "val \<Rightarrow> val \<Rightarrow> bool" where
  "go_equal x y =
     (case x of
        VComplex r1 i1 \<Rightarrow>
          (case y of VComplex r2 i2 \<Rightarrow> float_equal r1 r2 \<and> float_equal i1 i2 | _ \<Rightarrow> False)
      | VChan a \<Rightarrow> (case y of VChan b \<Rightarrow> a = b | _ \<Rightarrow> False)
      | VUnsafePointer a \<Rightarrow> (case y of VUnsafePointer b \<Rightarrow> a = b | _ \<Rightarrow> False)
      | _ \<Rightarrow> False)"

definition compareInterface :: "tval \<Rightarrow> tval \<Rightarrow> panic + int" where
  "compareInterface v1 v2 =
     (if tv_type v1 = tv_type v2 \<and> go_equal (tv_val v1) (tv_val v2) then Inr 0
      else Inl (CannotCompareType (tv_type v1)))"

text \<open>Negation of a Go \<^verbatim>\<open>int\<close> (64 bits, two's complement).\<close>

definition negInt :: "int \<Rightarrow> int" where
  "negInt r = (if r = - (2 ^ 63) then r else - r)"

section \<open>The comparison engine\<close>

text \<open>
  A call of the engine either panics (\<open>Inl\<close>) or returns (\<open>Inr\<close>); \<open>None\<close> says that the
  call has not returned within the given number of nested calls.
\<close>

type_synonym 'a result = "(panic + 'a) option"

definition orPanic :: "panic + 'a \<Rightarrow> ('a \<Rightarrow> 'b result) \<Rightarrow> 'b result" where
  "orPanic m f = (case m of Inl p \<Rightarrow> Some (Inl p) | Inr a \<Rightarrow> f a)"

text \<open>
  The deferred \<^verbatim>\<open>makeUsefulPanic(v1)\<close>: an \<^verbatim>\<open>unexportedTypePanic\<close> that passes through
  is re-raised with the type of \<open>v1\<close> in front.
\<close>

definition makeUsefulPanic :: "rvalue option \<Rightarrow> 'a result \<Rightarrow> 'a result" where
  "makeUsefulPanic v r =
     (case r of
        Some (Inl (UnexportedTypePanic u)) \<Rightarrow>
          (case v of
             Some x \<Rightarrow> Some (Inl (UnexportedTypePanic (rv_type x # u)))
           | None \<Rightarrow> Some (Inl (ReflectPanic ''reflect: call of reflect.Value.Type on zero Value'')))
      | _ \<Rightarrow> r)"

definition hard :: "kind \<Rightarrow> bool" where
  "hard k = (k = KArray \<or> k = KMap \<or> k = KSlice \<or> k = KStruct)"

text \<open>
  The deferred closure of the cycle check: when the call returns \<open>res\<close>, it is stored
  under the canonical key, negated when the addresses were swapped.
\<close>

definition remember :: "visit \<Rightarrow> bool \<Rightarrow> (int \<times> visited) result \<Rightarrow> (int \<times> visited) result" where
  "remember v swapped r =
     (case r of
        Some (Inr (res, visited)) \<Rightarrow>
          Some (Inr (res, visited(v \<mapsto> (if swapped then negInt res else res))))
      | _ \<Rightarrow> r)"

text \<open>
  The loops of the engine: run the body on each item in turn, threading the visited
  set, and return the first result that is not 0.
\<close>

primrec firstNonZero ::
  "('i \<Rightarrow> visited \<Rightarrow> (int \<times> visited) result) \<Rightarrow> 'i list \<Rightarrow> visited \<Rightarrow> (int \<times> visited) result"
where
  "firstNonZero body [] visited = Some (Inr (0, visited))"
| "firstNonZero body (i # rest) visited =
     (case body i visited of
        Some (Inr (res, visited')) \<Rightarrow>
          if res \<noteq> 0 then Some (Inr (res, visited')) else firstNonZero body rest visited'
      | other \<Rightarrow> other)"

definition nilOrEmpty :: "store \<Rightarrow> rvalue \<Rightarrow> panic + bool" where
  "nilOrEmpty st v =
     (case IsNil v of Inl p \<Rightarrow> Inl p
      | Inr nil \<Rightarrow> if nil then Inr True
                  else (case Len st v of Inl p \<Rightarrow> Inl p | Inr l \<Rightarrow> Inr (l = 0)))"

text \<open>
  The element loop of the array and slice cases, the field loop of the struct case and
  the key loop of the map case, with the recursive call as the parameter \<open>rec\<close>.
\<close>

definition compareElems ::
  "(rvalue option \<Rightarrow> rvalue option \<Rightarrow> visited \<Rightarrow> (int \<times> visited) result) \<Rightarrow>
   store \<Rightarrow> rvalue \<Rightarrow> rvalue \<Rightarrow> nat \<Rightarrow> visited \<Rightarrow> (int \<times> visited) result"
where
  "compareElems rec st v1 v2 len visited =
     firstNonZero (\<lambda>i vis.
        orPanic (Index st v1 i) (\<lambda>e1.
        orPanic (Index st v2 i) (\<lambda>e2. rec e1 e2 vis))) [0..<len] visited"

definition compareFields ::
  "(rvalue option \<Rightarrow> rvalue option \<Rightarrow> visited \<Rightarrow> (int \<times> visited) result) \<Rightarrow>
   rvalue \<Rightarrow> rvalue \<Rightarrow> nat \<Rightarrow> visited \<Rightarrow> (int \<times> visited) result"
where
  "compareFields rec v1 v2 n visited =
     firstNonZero (\<lambda>i vis.
        orPanic (Field_at v1 i) (\<lambda>f1.
        orPanic (Field_at v2 i) (\<lambda>f2. rec f1 f2 vis))) [0..<n] visited"

definition compareEntries ::
  "(rvalue option \<Rightarrow> rvalue option \<Rightarrow> visited \<Rightarrow> (int \<times> visited) result) \<Rightarrow>
   store \<Rightarrow> rvalue \<Rightarrow> rvalue \<Rightarrow> rvalue list \<Rightarrow> visited \<Rightarrow> (int \<times> visited) result"
where
  "compareEntries rec st v1 v2 keys visited =
     firstNonZero (\<lambda>k vis.
        orPanic (MapIndex st v1 k) (\<lambda>e1.
        orPanic (MapIndex st v2 k) (\<lambda>e2. rec e1 e2 vis))) keys visited"

text \<open>
  The \<^verbatim>\<open>switch v1.Kind()\<close> of \<^verbatim>\<open>deepValueCompare\<close>, with the recursive call as the
  parameter \<open>rec\<close>.
\<close>

definition compareShape ::
  "(rvalue option \<Rightarrow> rvalue option \<Rightarrow> visited \<Rightarrow> (int \<times> visited) result) \<Rightarrow>
   store \<Rightarrow> rvalue \<Rightarrow> rvalue \<Rightarrow> visited \<Rightarrow> (int \<times> visited) result"
where
  "compareShape rec st v1 v2 visited =
     (case Kind v1 of
        KArray \<Rightarrow>
          orPanic (Len st v1) (\<lambda>len. compareElems rec st v1 v2 len visited)
      | KSlice \<Rightarrow>
          orPanic (nilOrEmpty st v1) (\<lambda>e1.
          orPanic (nilOrEmpty st v2) (\<lambda>e2.
            if e1 \<noteq> e2 then Some (Inr (0, visited))
            else
              orPanic (Len st v1) (\<lambda>len1.
              orPanic (Len st v2) (\<lambda>len2.
                if int len1 - int len2 \<noteq> 0 then Some (Inr (int len1 - int len2, visited))
                else
                  orPanic (Pointer v1) (\<lambda>p1.
                  orPanic (Pointer v2) (\<lambda>p2.
                    if p1 = p2 then Some (Inr (0, visited))
                    else compareElems rec st v1 v2 len1 visited))))))
      | KInterface \<Rightarrow>
          orPanic (IsNil v1) (\<lambda>nil1.
          orPanic (IsNil v2) (\<lambda>nil2.
            if compareBool (\<not> nil1) (\<not> nil2) \<noteq> 0
            then Some (Inr (compareBool (\<not> nil1) (\<not> nil2), visited))
            else
              orPanic (Elem st v1) (\<lambda>e1.
              orPanic (Elem st v2) (\<lambda>e2. rec e1 e2 visited))))
      | KPtr \<Rightarrow>
          orPanic (Elem st v1) (\<lambda>e1.
          orPanic (Elem st v2) (\<lambda>e2. rec e1 e2 visited))
      | KStruct \<Rightarrow>
          orPanic (NumField v1) (\<lambda>n. compareFields rec v1 v2 n visited)
      | KMap \<Rightarrow>
          orPanic (nilOrEmpty st v1) (\<lambda>e1.
          orPanic (nilOrEmpty st v2) (\<lambda>e2.
            if e1 \<noteq> e2 then Some (Inr (0, visited))
            else
              orPanic (Len st v1) (\<lambda>len1.
              orPanic (Len st v2) (\<lambda>len2.
                if int len1 - int len2 \<noteq> 0 then Some (Inr (int len1 - int len2, visited))
                else
                  orPanic (Pointer v1) (\<lambda>p1.
                  orPanic (Pointer v2) (\<lambda>p2.
                    if p1 = p2 then Some (Inr (0, visited))
                    else
                      orPanic (MapKeys st v1) (\<lambda>keys.
                        compareEntries rec st v1 v2 keys visited)))))))
      | KFunc \<Rightarrow>
          orPanic (IsNil v1) (\<lambda>nil1.
          orPanic (IsNil v2) (\<lambda>nil2.
            if \<not> nil1 \<and> \<not> nil2 then Some (Inl NonNilFunctions)
            else Some (Inr (compareBool (\<not> nil1) (\<not> nil2), visited))))
      | KBool \<Rightarrow>
          orPanic (rv_Bool v1) (\<lambda>b1.
          orPanic (rv_Bool v2) (\<lambda>b2. Some (Inr (compareBool b1 b2, visited))))
      | KUint \<Rightarrow>
          orPanic (rv_Uint v1) (\<lambda>u1.
          orPanic (rv_Uint v2) (\<lambda>u2. Some (Inr (compareUInt64 u1 u2, visited))))
      | KInt \<Rightarrow>
          orPanic (rv_Int v1) (\<lambda>i1.
          orPanic (rv_Int v2) (\<lambda>i2. Some (Inr (compareInt64 i1 i2, visited))))
      | KFloat \<Rightarrow>
          orPanic (rv_Float v1) (\<lambda>f1.
          orPanic (rv_Float v2) (\<lambda>f2. Some (Inr (compareFloat64 f1 f2, visited))))
      | KString \<Rightarrow>
          orPanic (rv_String v1) (\<lambda>s1.
          orPanic (rv_String v2) (\<lambda>s2. Some (Inr (strings_Compare s1 s2, visited))))
      | _ \<Rightarrow>
          if \<not> (CanInterface v1 \<and> CanInterface v2) then Some (Inl (UnexportedTypePanic []))
          else orPanic (compareInterface (Interface v1) (Interface v2))
                 (\<lambda>r. Some (Inr (r, visited))))"

text \<open>
  \<^verbatim>\<open>deepValueCompare\<close>. The first argument bounds the depth of nested calls; the
  \<^verbatim>\<open>depth\<close> parameter of the source is never read and is left out.
\<close>

fun deepValueCompare ::
  "nat \<Rightarrow> comparisons \<Rightarrow> store \<Rightarrow> rvalue option \<Rightarrow> rvalue option \<Rightarrow> visited \<Rightarrow>
   (int \<times> visited) result"
where
  "deepValueCompare 0 c st v1 v2 visited = None"
| "deepValueCompare (Suc n) c st v1 v2 visited =
     makeUsefulPanic v1
      (case (v1, v2) of
         (Some x1, Some x2) \<Rightarrow>
           if rv_type x1 \<noteq> rv_type x2
           then Some (Inl (DifferentTypes (rv_type x1) (rv_type x2)))
           else
             (case c (rv_type x1) of
                Some fv \<Rightarrow> orPanic (Call st fv x1 x2) (\<lambda>r. Some (Inr (r, visited)))
              | None \<Rightarrow>
                  if CanAddr x1 \<and> CanAddr x2 \<and> hard (Kind x1) then
                    (let addr1 = UnsafeAddr x1;
                         addr2 = UnsafeAddr x2;
                         swapped = (addr1 > addr2);
                         a1 = (if swapped then addr2 else addr1);
                         a2 = (if swapped then addr1 else addr2)
                     in if a1 = a2 then Some (Inr (0, visited))
                        else
                          (case visited (a1, a2, rv_type x1) of
                             Some res \<Rightarrow> Some (Inr (res, visited))
                           | None \<Rightarrow>
                               remember (a1, a2, rv_type x1) swapped
                                 (compareShape (deepValueCompare n c st) st x1 x2 visited)))
                  else compareShape (deepValueCompare n c st) st x1 x2 visited)
       | _ \<Rightarrow> Some (Inr (compareBool (v1 \<noteq> None) (v2 \<noteq> None), visited)))"

text \<open>\<^verbatim>\<open>DeepCompare\<close>: the entry point, on two interface values (\<open>None\<close> is the nil interface).\<close>

definition DeepCompare ::
  "nat \<Rightarrow> comparisons \<Rightarrow> store \<Rightarrow> tval option \<Rightarrow> tval option \<Rightarrow> int result"
where
  "DeepCompare n c st a1 a2 =
     (if compareBool (a1 = None) (a2 = None) \<noteq> 0
      then Some (Inr (compareBool (a1 = None) (a2 = None)))
      else
        (case (ValueOf a1, ValueOf a2) of
           (Some v1, Some v2) \<Rightarrow>
             if rv_type v1 \<noteq> rv_type v2
             then Some (Inl (DifferentTypes (rv_type v1) (rv_type v2)))
             else
               (case deepValueCompare n c st (Some v1) (Some v2) Map.empty of
                  None \<Rightarrow> None
                | Some (Inl p) \<Rightarrow> Some (Inl p)
                | Some (Inr (res, visited)) \<Rightarrow> Some (Inr res))
         | _ \<Rightarrow> Some (Inl (ReflectPanic ''reflect: call of reflect.Value.Type on zero Value''))))"


section \<open>The comparator registry\<close>

text \<open>The type descriptor of Go's \<^verbatim>\<open>int\<close>, as \<^verbatim>\<open>reflect.TypeOf(forReturnType)\<close> yields it.\<close>

definition intType :: rtype where
  "intType = RType ''int'' [] []"

text \<open>
  \<^verbatim>\<open>AddFunc\<close> returns the registry as the call leaves it and the error, if any. The
  argument is an interface value; for the nil interface \<^verbatim>\<open>fv.Type()\<close> panics.
\<close>

definition AddFunc ::
  "comparisons \<Rightarrow> tval option \<Rightarrow> panic + (comparisons \<times> add_error option)"
where
  "AddFunc c compFunc =
     (case ValueOf compFunc of
        None \<Rightarrow> Inl (ReflectPanic ''reflect: call of reflect.Value.Type on zero Value'')
      | Some fv \<Rightarrow>
          (let ft = rv_type fv in
           if Kind fv \<noteq> KFunc then Inr (c, Some (ExpectedFunc ft))
           else if length (type_in ft) \<noteq> 2 then Inr (c, Some (ExpectedTwoIn ft))
           else if length (type_out ft) \<noteq> 1 then Inr (c, Some (ExpectedOneOut ft))
           else if type_in ft ! 0 \<noteq> type_in ft ! 1 then Inr (c, Some (ExpectedSameArgs ft))
           else if type_out ft ! 0 \<noteq> intType then Inr (c, Some (ExpectedIntReturn ft))
           else Inr (c(type_in ft ! 0 \<mapsto> fv), None)))"

fun AddFuncs ::
  "comparisons \<Rightarrow> tval option list \<Rightarrow> panic + (comparisons \<times> add_error option)"
where
  "AddFuncs c [] = Inr (c, None)"
| "AddFuncs c (f # rest) =
     (case AddFunc c f of
        Inl p \<Rightarrow> Inl p
      | Inr (c', Some err) \<Rightarrow> Inr (c', Some err)
      | Inr (c', None) \<Rightarrow> AddFuncs c' rest)"

text \<open>\<^verbatim>\<open>NewComparisons\<close> returns \<^verbatim>\<open>nil, err\<close> on an error; the nil registry is \<open>None\<close>.\<close>

definition NewComparisons ::
  "tval option list \<Rightarrow> panic + (comparisons option \<times> add_error option)"
where
  "NewComparisons fs =
     (case AddFuncs Map.empty fs of
        Inl p \<Rightarrow> Inl p
      | Inr (c, Some err) \<Rightarrow> Inr (None, Some err)
      | Inr (c, None) \<Rightarrow> Inr (Some c, None))"

definition NewComparisonsOrDie :: "tval option list \<Rightarrow> panic + comparisons option" where
  "NewComparisonsOrDie fs =
     (case NewComparisons fs of
        Inl p \<Rightarrow> Inl p
      | Inr (c, Some err) \<Rightarrow> Inl (ErrorPanic err)
      | Inr (c, None) \<Rightarrow> Inr c)"

section \<open>Notions used to state the properties\<close>

text \<open>The ordering signal of a call of the engine, without the visited set.\<close>

definition signal :: "(int \<times> visited) result \<Rightarrow> int result" where
  "signal r =
     (case r of
        None \<Rightarrow> None
      | Some (Inl p) \<Rightarrow> Some (Inl p)
      | Some (Inr (res, visited)) \<Rightarrow> Some (Inr res))"

text \<open>The top-level operand of \<^verbatim>\<open>DeepCompare\<close>, and an entry read from a top-level map.\<close>

definition asValue :: "tval \<Rightarrow> rvalue" where
  "asValue x = RValue (tv_type x) None NotRO (tv_val x)"

text \<open>
  The cycle check intercepts a step when both operands are addressable and of a hard
  kind, and their addresses are equal or their pair is in the visited set.
\<close>

definition intercepted :: "rvalue \<Rightarrow> rvalue \<Rightarrow> visited \<Rightarrow> bool" where
  "intercepted v1 v2 visited =
     (CanAddr v1 \<and> CanAddr v2 \<and> hard (Kind v1) \<and>
      (UnsafeAddr v1 = UnsafeAddr v2 \<or>
       visited (min (UnsafeAddr v1) (UnsafeAddr v2), max (UnsafeAddr v1) (UnsafeAddr v2),
                rv_type v1) \<noteq> None))"

definition isNilOrEmpty :: "store \<Rightarrow> rvalue \<Rightarrow> bool" where
  "isNilOrEmpty st v = (nilOrEmpty st v = Inr True)"

text \<open>
  The elementwise comparison of two slices (by index) or of two maps (by the keys of
  the first).
\<close>

definition elementwise ::
  "(rvalue option \<Rightarrow> rvalue option \<Rightarrow> visited \<Rightarrow> (int \<times> visited) result) \<Rightarrow>
   store \<Rightarrow> rvalue \<Rightarrow> rvalue \<Rightarrow> visited \<Rightarrow> (int \<times> visited) result"
where
  "elementwise rec st v1 v2 visited =
     (if Kind v1 = KSlice
      then orPanic (Len st v1) (\<lambda>len. compareElems rec st v1 v2 len visited)
      else orPanic (MapKeys st v1) (\<lambda>keys. compareEntries rec st v1 v2 keys visited))"

text \<open>
  The signature the specification asks of an ordering function: a function of two
  parameters of one type \<open>A\<close> with the single result type \<^verbatim>\<open>int\<close>.
\<close>

definition isFunc :: "tval \<Rightarrow> bool" where
  "isFunc f = (case tv_val f of VFunc g \<Rightarrow> True | _ \<Rightarrow> False)"


text \<open>
  \<open>selfComparable d c st v\<close>: the traversal of \<open>v\<close> against itself ends within \<open>d\<close> nested
  calls without a panic. The traversal meets no registered type; it stops at an
  addressable array or struct, at a slice and at a map (identical storage); it follows
  pointers, interfaces and the elements of arrays and structs that are not addressable;
  a function it meets is nil; a complex number, channel or unsafe pointer it meets is
  not read-only and is equal to itself.
\<close>

definition childrenComparable :: "(rvalue option \<Rightarrow> bool) \<Rightarrow> store \<Rightarrow> rvalue \<Rightarrow> bool" where
  "childrenComparable ok st v =
     (case Kind v of
        KArray \<Rightarrow>
          (case Len st v of
             Inl p \<Rightarrow> False
           | Inr len \<Rightarrow>
               list_all (\<lambda>i. case Index st v i of Inl p \<Rightarrow> False | Inr e \<Rightarrow> ok e) [0..<len])
      | KStruct \<Rightarrow>
          (case NumField v of
             Inl p \<Rightarrow> False
           | Inr len \<Rightarrow>
               list_all (\<lambda>i. case Field_at v i of Inl p \<Rightarrow> False | Inr e \<Rightarrow> ok e) [0..<len])
      | KPtr \<Rightarrow> (case Elem st v of Inl p \<Rightarrow> False | Inr e \<Rightarrow> ok e)
      | KInterface \<Rightarrow> (case Elem st v of Inl p \<Rightarrow> False | Inr e \<Rightarrow> ok e)
      | KFunc \<Rightarrow> IsNil v = Inr True
      | KComplex \<Rightarrow> CanInterface v \<and> go_equal (rv_data v) (rv_data v)
      | KChan \<Rightarrow> CanInterface v
      | KUnsafePointer \<Rightarrow> CanInterface v
      | _ \<Rightarrow> True)"

fun selfComparable :: "nat \<Rightarrow> comparisons \<Rightarrow> store \<Rightarrow> rvalue option \<Rightarrow> bool" where
  "selfComparable 0 c st v = False"
| "selfComparable (Suc d) c st None = True"
| "selfComparable (Suc d) c st (Some v) =
     (c (rv_type v) = None \<and>
      (if CanAddr v \<and> hard (Kind v) then True
       else childrenComparable (selfComparable d c st) st v))"

section \<open>Example values\<close>

definition tString :: rtype where "tString = RType ''string'' [] []"
definition tComplex :: rtype where "tComplex = RType ''complex128'' [] []"
definition tFunc :: rtype where "tFunc = RType ''func()'' [] []"
definition tSliceInt :: rtype where "tSliceInt = RType ''[]int'' [] []"
definition tMapIntInt :: rtype where "tMapIntInt = RType ''map[int]int'' [] []"

text \<open>\<^verbatim>\<open>type N struct { Next *N }\<close>, and two nodes that each point to themselves.\<close>

definition tN :: rtype where "tN = RType ''N'' [] []"
definition tPtrN :: rtype where "tPtrN = RType ''*N'' [] []"

definition node :: "nat \<Rightarrow> tval" where
  "node a = TV tN (VStruct [StructField ''Next'' True False 0 (TV tPtrN (VPtr (Some a)))])"

definition ptrN :: "nat \<Rightarrow> tval" where
  "ptrN a = TV tPtrN (VPtr (Some a))"

text \<open>
  \<^verbatim>\<open>type Pet string\<close> with \<^verbatim>\<open>comparePets\<close> of the package's example, which orders pets by
  adorability; \<^verbatim>\<open>type Owner struct { pet Pet }\<close> holds a pet in a non-public field.
\<close>

definition tPet :: rtype where "tPet = RType ''Pet'' [] []"
definition tComparePets :: rtype where "tComparePets = RType ''func(Pet, Pet) int'' [tPet, tPet] [intType]"
definition tOwner :: rtype where "tOwner = RType ''Owner'' [] []"

definition pet :: "string \<Rightarrow> tval" where
  "pet name = TV tPet (VString name)"

definition owner :: "string \<Rightarrow> tval" where
  "owner name = TV tOwner (VStruct [StructField ''pet'' False False 0 (pet name)])"

definition petAdorability :: "tval \<Rightarrow> int" where
  "petAdorability p =
     (if tv_val p = VString ''Cat'' then 10 else if tv_val p = VString ''Dog'' then 9 else 0)"

definition comparePets :: tval where
  "comparePets = TV tComparePets (VFunc (Some 1))"

definition petComparisons :: comparisons where
  "petComparisons = [tPet \<mapsto> asValue comparePets]"

text \<open>
  \<^verbatim>\<open>type S struct { a int }\<close>, and \<^verbatim>\<open>type Outer struct { In Inner }\<close> over
  \<^verbatim>\<open>type Inner struct { z complex128 }\<close>.
\<close>

definition tS :: rtype where "tS = RType ''S'' [] []"
definition tOuter :: rtype where "tOuter = RType ''Outer'' [] []"
definition tInner :: rtype where "tInner = RType ''Inner'' [] []"

definition structS :: "int \<Rightarrow> tval" where
  "structS i = TV tS (VStruct [StructField ''a'' False False 0 (TV intType (VInt i))])"

definition outer :: tval where
  "outer = TV tOuter (VStruct [StructField ''In'' True False 0
              (TV tInner (VStruct [StructField ''z'' False False 0
                 (TV tComplex (VComplex (Finite 1) (Finite 1)))]))])"

text \<open>Maps, slices and a function value.\<close>

definition intEntry :: "int \<Rightarrow> int \<Rightarrow> tval \<times> tval" where
  "intEntry k v = (TV intType (VInt k), TV intType (VInt v))"

definition mapAt :: "nat \<Rightarrow> tval" where
  "mapAt m = TV tMapIntInt (VMap (Some m))"

definition sliceOf :: "slice option \<Rightarrow> tval" where
  "sliceOf s = TV tSliceInt (VSlice s)"

definition someFunc :: tval where
  "someFunc = TV tFunc (VFunc (Some 2))"

text \<open>A function value of the type with the given parameter and result types.\<close>

definition funcOf :: "rtype list \<Rightarrow> rtype list \<Rightarrow> tval" where
  "funcOf ins outs = TV (RType ''func'' ins outs) (VFunc (Some 3))"

text \<open>
  The store of the examples: the two nodes at 100 and 200; the elements of
  \<^verbatim>\<open>[]int{1, 2}\<close> at 500, of \<^verbatim>\<open>[]int{1}\<close> at 600 and of \<^verbatim>\<open>[]int{1, 1}\<close> at 800; the maps \<^verbatim>\<open>{1: 1}\<close> at 300,
  \<^verbatim>\<open>{2: 1}\<close> at 400, \<^verbatim>\<open>{1: 1, 2: 2}\<close> at 310 and \<^verbatim>\<open>{1: 1, 3: 3}\<close> at 410; and
  \<^verbatim>\<open>comparePets\<close> as function 1.
\<close>

definition example_store :: store where
  "example_store =
     \<lparr>cells = [100 \<mapsto> node 100, 200 \<mapsto> node 200,
               500 \<mapsto> TV intType (VInt 1), 508 \<mapsto> TV intType (VInt 2),
               600 \<mapsto> TV intType (VInt 1),
               800 \<mapsto> TV intType (VInt 1), 808 \<mapsto> TV intType (VInt 1)],
      maps = (\<lambda>m. if m = 300 then [intEntry 1 1]
                  else if m = 400 then [intEntry 2 1]
                  else if m = 310 then [intEntry 1 1, intEntry 2 2]
                  else if m = 410 then [intEntry 1 1, intEntry 3 3]
                  else []),
      func_result = (\<lambda>f x y. if f = 1 then petAdorability x - petAdorability y else 0)\<rparr>"

section \<open>Unfolding rules\<close>

lemmas reflect_defs =
  rv_Bool_def rv_Int_def rv_Uint_def rv_Float_def rv_String_def IsNil_def Len_def
  Pointer_def load_def Elem_def Index_def NumField_def Field_at_def MapKeys_def
  MapIndex_def Call_def Kind_def CanAddr_def UnsafeAddr_def CanInterface_def
  Interface_def wrongKind_def ValueOf_def asValue_def isRO_def ro_def fieldFlag_def

lemmas engine_defs =
  compareShape_def compareElems_def compareFields_def compareEntries_def orPanic_def
  makeUsefulPanic_def remember_def
  hard_def nilOrEmpty_def compareBool_def compareInt64_def compareUInt64_def
  compareFloat64_def strings_Compare_def compareInterface_def go_equal_def negInt_def

lemmas example_defs =
  example_store_def node_def ptrN_def tN_def tPtrN_def intType_def tString_def
  tComplex_def tFunc_def tSliceInt_def tMapIntInt_def tPet_def tComparePets_def
  tOwner_def pet_def owner_def petAdorability_def comparePets_def petComparisons_def
  tS_def tOuter_def tInner_def structS_def outer_def intEntry_def mapAt_def sliceOf_def
  someFunc_def funcOf_def

section \<open>The bound on nested calls\<close>










section \<open>The untyped nil at the top level\<close>

text \<open>
  C1. \<^verbatim>\<open>DeepCompare\<close> compares \<^verbatim>\<open>a1 == nil\<close> with \<^verbatim>\<open>a2 == nil\<close> before it looks at any
  type, so the untyped nil against a non-nil value of any type returns and never panics.
  The sign is the other way round from the claim: \<^verbatim>\<open>compareBool(true, false)\<close> is 1, so
  the nil operand orders last, whereas the nil checks inside the engine negate
  \<^verbatim>\<open>IsNil\<close> and order nil first.
\<close>

theorem DeepCompare_untyped_nil:
  "DeepCompare n c st None (Some b) = Some (Inr 1) \<and>
   DeepCompare n c st (Some b) None = Some (Inr (- 1))"
  by (simp add: DeepCompare_def compareBool_def)

section \<open>Self-referential structures\<close>

text \<open>
  The engine stores a pair in the visited set only when its comparison returns. While
  two distinct nodes that point to themselves are compared, the set stays empty, and
  the comparison of the nodes and the comparison of their \<^verbatim>\<open>Next\<close> fields call each
  other without end.
\<close>

lemma cyclic_loop:
  "deepValueCompare n Map.empty example_store
     (Some (RValue tN (Some 100) NotRO (tv_val (node 100))))
     (Some (RValue tN (Some 200) NotRO (tv_val (node 200)))) Map.empty = None \<and>
   deepValueCompare n Map.empty example_store
     (Some (RValue tPtrN a1 NotRO (VPtr (Some 100))))
     (Some (RValue tPtrN a2 NotRO (VPtr (Some 200)))) Map.empty = None"
proof (induction n arbitrary: a1 a2)
  case 0
  show ?case by simp
next
  case (Suc n)
  have s: "deepValueCompare (Suc n) Map.empty example_store
     (Some (RValue tN (Some 100) NotRO (tv_val (node 100))))
     (Some (RValue tN (Some 200) NotRO (tv_val (node 200)))) Map.empty = None"
    using Suc[of "Some 100" "Some 200"]
    by (simp add: engine_defs reflect_defs node_def)
  have p: "deepValueCompare (Suc n) Map.empty example_store
     (Some (RValue tPtrN a1 NotRO (VPtr (Some 100))))
     (Some (RValue tPtrN a2 NotRO (VPtr (Some 200)))) Map.empty = None"
    using Suc[of a1 a2]
    by (simp add: engine_defs reflect_defs node_def example_store_def tN_def tPtrN_def)
  from s p show ?case by simp
qed

text \<open>
  C2. A node that points to itself, compared with itself, returns 0 (the two structs
  have one address). Compared with a second node of the same shape at another address,
  \<^verbatim>\<open>DeepCompare\<close> does not return, whatever the bound on nested calls: the claim's
  short-circuit on a comparison in progress does not exist in the code.
\<close>

theorem DeepCompare_cyclic:
  "DeepCompare (Suc (Suc n)) Map.empty example_store (Some (ptrN 100)) (Some (ptrN 100)) = Some (Inr 0) \<and>
   DeepCompare n Map.empty example_store (Some (ptrN 100)) (Some (ptrN 200)) = None"
proof
  show "DeepCompare (Suc (Suc n)) Map.empty example_store (Some (ptrN 100)) (Some (ptrN 100)) = Some (Inr 0)"
    by (simp add: DeepCompare_def engine_defs reflect_defs example_defs)
  show "DeepCompare n Map.empty example_store (Some (ptrN 100)) (Some (ptrN 200)) = None"
    using cyclic_loop[of n None None]
    by (simp add: DeepCompare_def ptrN_def reflect_defs compareBool_def)
qed

section \<open>Comparing a value with itself\<close>

lemma firstNonZero_all_zero:
  "(\<And>i. i \<in> set xs \<Longrightarrow> body i vis = Some (Inr (0, vis))) \<Longrightarrow>
   firstNonZero body xs vis = Some (Inr (0, vis))"
  by (induction xs) simp_all

lemma child_cases:
  "(case x of Inl p \<Rightarrow> False | Inr e \<Rightarrow> P e) \<Longrightarrow> \<exists>e. x = Inr e \<and> P e"
  by (cases x) simp_all

lemma Kind_data:
  "Kind v = KBool \<Longrightarrow> \<exists>x. rv_data v = VBool x"
  "Kind v = KInt \<Longrightarrow> \<exists>x. rv_data v = VInt x"
  "Kind v = KUint \<Longrightarrow> \<exists>x. rv_data v = VUint x"
  "Kind v = KFloat \<Longrightarrow> \<exists>x. rv_data v = VFloat x"
  "Kind v = KComplex \<Longrightarrow> \<exists>x y. rv_data v = VComplex x y"
  "Kind v = KString \<Longrightarrow> \<exists>x. rv_data v = VString x"
  "Kind v = KChan \<Longrightarrow> \<exists>x. rv_data v = VChan x"
  "Kind v = KUnsafePointer \<Longrightarrow> \<exists>x. rv_data v = VUnsafePointer x"
  "Kind v = KFunc \<Longrightarrow> \<exists>x. rv_data v = VFunc x"
  "Kind v = KPtr \<Longrightarrow> \<exists>x. rv_data v = VPtr x"
  "Kind v = KInterface \<Longrightarrow> \<exists>x. rv_data v = VInterface x"
  "Kind v = KSlice \<Longrightarrow> \<exists>x. rv_data v = VSlice x"
  "Kind v = KMap \<Longrightarrow> \<exists>x. rv_data v = VMap x"
  "Kind v = KArray \<Longrightarrow> \<exists>x y. rv_data v = VArray x y"
  "Kind v = KStruct \<Longrightarrow> \<exists>x. rv_data v = VStruct x"
  by (cases "rv_data v"; simp add: Kind_def)+

text \<open>The scalar kinds, slices and maps: the switch returns 0 on equal operands.\<close>

lemma shape_self_leaf:
  assumes "Kind x = KBool \<or> Kind x = KInt \<or> Kind x = KUint \<or> Kind x = KFloat \<or>
           Kind x = KString \<or> Kind x = KSlice \<or> Kind x = KMap"
  shows "compareShape rec st x x vis = Some (Inr (0, vis))"
proof -
  consider (b) "Kind x = KBool" | (i) "Kind x = KInt" | (u) "Kind x = KUint"
    | (f) "Kind x = KFloat" | (s) "Kind x = KString" | (sl) "Kind x = KSlice"
    | (m) "Kind x = KMap"
    using assms by blast
  then show ?thesis
  proof cases
    case b
    from Kind_data(1)[OF b] obtain y where "rv_data x = VBool y" by blast
    then show ?thesis using b
      by (simp add: compareShape_def orPanic_def rv_Bool_def compareBool_def)
  next
    case i
    from Kind_data(2)[OF i] obtain y where "rv_data x = VInt y" by blast
    then show ?thesis using i
      by (simp add: compareShape_def orPanic_def rv_Int_def compareInt64_def)
  next
    case u
    from Kind_data(3)[OF u] obtain y where "rv_data x = VUint y" by blast
    then show ?thesis using u
      by (simp add: compareShape_def orPanic_def rv_Uint_def compareUInt64_def)
  next
    case f
    from Kind_data(4)[OF f] obtain y where "rv_data x = VFloat y" by blast
    then show ?thesis using f
      by (cases y) (simp_all add: compareShape_def orPanic_def rv_Float_def compareFloat64_def float_less_def)
  next
    case s
    from Kind_data(6)[OF s] obtain y where "rv_data x = VString y" by blast
    then show ?thesis using s
      by (simp add: compareShape_def orPanic_def rv_String_def strings_Compare_def)
  next
    case sl
    from Kind_data(12)[OF sl] obtain y where "rv_data x = VSlice y" by blast
    then show ?thesis using sl
      by (cases y) (simp_all add: compareShape_def orPanic_def nilOrEmpty_def IsNil_def Len_def Pointer_def)
  next
    case m
    from Kind_data(13)[OF m] obtain y where "rv_data x = VMap y" by blast
    then show ?thesis using m
      by (cases y) (simp_all add: compareShape_def orPanic_def nilOrEmpty_def IsNil_def Len_def Pointer_def)
  qed
qed

lemma shape_self_array:
  assumes k: "Kind x = KArray" and len: "Len st x = Inr len"
    and all: "\<And>i. i < len \<Longrightarrow> \<exists>e. Index st x i = Inr e \<and> rec e e vis = Some (Inr (0, vis))"
  shows "compareShape rec st x x vis = Some (Inr (0, vis))"
proof -
  have "firstNonZero (\<lambda>i vis. orPanic (Index st x i) (\<lambda>e1. orPanic (Index st x i) (\<lambda>e2. rec e1 e2 vis)))
          [0..<len] vis = Some (Inr (0, vis))"
  proof (rule firstNonZero_all_zero)
    fix i assume "i \<in> set [0..<len]"
    then have "i < len" by simp
    from all[OF this] obtain e where "Index st x i = Inr e" "rec e e vis = Some (Inr (0, vis))"
      by blast
    then show "orPanic (Index st x i) (\<lambda>e1. orPanic (Index st x i) (\<lambda>e2. rec e1 e2 vis)) = Some (Inr (0, vis))"
      by (simp add: orPanic_def)
  qed
  then show ?thesis using k len
    by (simp add: compareShape_def compareElems_def orPanic_def)
qed

lemma shape_self_struct:
  assumes k: "Kind x = KStruct" and len: "NumField x = Inr len"
    and all: "\<And>i. i < len \<Longrightarrow> \<exists>e. Field_at x i = Inr e \<and> rec e e vis = Some (Inr (0, vis))"
  shows "compareShape rec st x x vis = Some (Inr (0, vis))"
proof -
  have "firstNonZero (\<lambda>i vis. orPanic (Field_at x i) (\<lambda>e1. orPanic (Field_at x i) (\<lambda>e2. rec e1 e2 vis)))
          [0..<len] vis = Some (Inr (0, vis))"
  proof (rule firstNonZero_all_zero)
    fix i assume "i \<in> set [0..<len]"
    then have "i < len" by simp
    from all[OF this] obtain e where "Field_at x i = Inr e" "rec e e vis = Some (Inr (0, vis))"
      by blast
    then show "orPanic (Field_at x i) (\<lambda>e1. orPanic (Field_at x i) (\<lambda>e2. rec e1 e2 vis)) = Some (Inr (0, vis))"
      by (simp add: orPanic_def)
  qed
  then show ?thesis using k len
    by (simp add: compareShape_def compareFields_def orPanic_def)
qed

lemma shape_self_elem:
  assumes k: "Kind x = KPtr \<or> Kind x = KInterface"
    and e: "Elem st x = Inr e" and r: "rec e e vis = Some (Inr (0, vis))"
  shows "compareShape rec st x x vis = Some (Inr (0, vis))"
proof -
  from k show ?thesis
  proof
    assume "Kind x = KPtr"
    then show ?thesis using e r by (simp add: compareShape_def orPanic_def)
  next
    assume ki: "Kind x = KInterface"
    from Kind_data(11)[OF ki] obtain i where "rv_data x = VInterface i" by blast
    then have "IsNil x = Inr (i = None)" by (simp add: IsNil_def)
    then show ?thesis using ki e r
      by (simp add: compareShape_def orPanic_def compareBool_def)
  qed
qed

lemma shape_self_fallback:
  assumes k: "Kind x = KComplex \<or> Kind x = KChan \<or> Kind x = KUnsafePointer"
    and ci: "CanInterface x" and eq: "go_equal (rv_data x) (rv_data x)"
  shows "compareShape rec st x x vis = Some (Inr (0, vis))"
  using assms by (auto simp: compareShape_def orPanic_def compareInterface_def Interface_def)

lemma go_equal_refl:
  "Kind x = KChan \<or> Kind x = KUnsafePointer \<Longrightarrow> go_equal (rv_data x) (rv_data x)"
  using Kind_data(7)[of x] Kind_data(8)[of x] by (auto simp: go_equal_def)

lemma selfComparable_zero:
  "selfComparable d c st v \<Longrightarrow> d \<le> n \<Longrightarrow>
   deepValueCompare n c st v v vis = Some (Inr (0, vis))"
proof (induction d arbitrary: n v vis)
  case 0
  then show ?case by simp
next
  case (Suc d)
  from Suc.prems obtain m where n: "n = Suc m" and dm: "d \<le> m"
    by (cases n) auto
  have rec: "\<And>e vis. selfComparable d c st e \<Longrightarrow>
      deepValueCompare m c st e e vis = Some (Inr (0, vis))"
    using Suc.IH dm by blast
  show ?case
  proof (cases v)
    case None
    then show ?thesis by (simp add: n makeUsefulPanic_def compareBool_def)
  next
    case (Some x)
    from Suc.prems Some have c: "c (rv_type x) = None" by simp
    show ?thesis
    proof (cases "CanAddr x \<and> hard (Kind x)")
      case True
      then show ?thesis
        by (simp add: Some n c makeUsefulPanic_def)
    next
      case False
      from Suc.prems Some False
      have cc: "childrenComparable (selfComparable d c st) st x" by simp
      have shape: "compareShape (deepValueCompare m c st) st x x vis = Some (Inr (0, vis))"
      proof (cases "Kind x")
        case KArray
        with cc have
          "case Len st x of Inl p \<Rightarrow> False
           | Inr len \<Rightarrow> list_all (\<lambda>i. case Index st x i of Inl p \<Rightarrow> False
                                        | Inr e \<Rightarrow> selfComparable d c st e) [0..<len]"
          by (simp add: childrenComparable_def)
        from child_cases[OF this] obtain len where len: "Len st x = Inr len"
          and all: "list_all (\<lambda>i. case Index st x i of Inl p \<Rightarrow> False
                                   | Inr e \<Rightarrow> selfComparable d c st e) [0..<len]"
          by blast
        show ?thesis
        proof (rule shape_self_array[OF KArray len])
          fix i assume "i < len"
          with all have "case Index st x i of Inl p \<Rightarrow> False | Inr e \<Rightarrow> selfComparable d c st e"
            unfolding list_all_iff by simp
          from child_cases[OF this] rec
          show "\<exists>e. Index st x i = Inr e \<and> deepValueCompare m c st e e vis = Some (Inr (0, vis))"
            by blast
        qed
      next
        case KStruct
        with cc have
          "case NumField x of Inl p \<Rightarrow> False
           | Inr len \<Rightarrow> list_all (\<lambda>i. case Field_at x i of Inl p \<Rightarrow> False
                                        | Inr e \<Rightarrow> selfComparable d c st e) [0..<len]"
          by (simp add: childrenComparable_def)
        from child_cases[OF this] obtain len where len: "NumField x = Inr len"
          and all: "list_all (\<lambda>i. case Field_at x i of Inl p \<Rightarrow> False
                                   | Inr e \<Rightarrow> selfComparable d c st e) [0..<len]"
          by blast
        show ?thesis
        proof (rule shape_self_struct[OF KStruct len])
          fix i assume "i < len"
          with all have "case Field_at x i of Inl p \<Rightarrow> False | Inr e \<Rightarrow> selfComparable d c st e"
            unfolding list_all_iff by simp
          from child_cases[OF this] rec
          show "\<exists>e. Field_at x i = Inr e \<and> deepValueCompare m c st e e vis = Some (Inr (0, vis))"
            by blast
        qed
      next
        case KPtr
        with cc
        have "case Elem st x of Inl p \<Rightarrow> False | Inr e \<Rightarrow> selfComparable d c st e"
          by (simp add: childrenComparable_def)
        from child_cases[OF this]
        obtain e where "Elem st x = Inr e" "selfComparable d c st e" by blast
        then show ?thesis using KPtr shape_self_elem rec by blast
      next
        case KInterface
        with cc
        have "case Elem st x of Inl p \<Rightarrow> False | Inr e \<Rightarrow> selfComparable d c st e"
          by (simp add: childrenComparable_def)
        from child_cases[OF this]
        obtain e where "Elem st x = Inr e" "selfComparable d c st e" by blast
        then show ?thesis using KInterface shape_self_elem rec by blast
      next
        case KFunc
        with cc have "IsNil x = Inr True" by (simp add: childrenComparable_def)
        with KFunc show ?thesis
          by (simp add: compareShape_def orPanic_def compareBool_def)
      next
        case KComplex
        with cc have "CanInterface x" "go_equal (rv_data x) (rv_data x)"
          by (simp_all add: childrenComparable_def)
        with KComplex shape_self_fallback show ?thesis by blast
      next
        case KChan
        with cc have "CanInterface x" by (simp add: childrenComparable_def)
        with KChan shape_self_fallback go_equal_refl show ?thesis by blast
      next
        case KUnsafePointer
        with cc have "CanInterface x" by (simp add: childrenComparable_def)
        with KUnsafePointer shape_self_fallback go_equal_refl show ?thesis by blast
      qed (simp_all add: shape_self_leaf)
      with False show ?thesis
        by (simp add: Some n c makeUsefulPanic_def)
    qed
  qed
qed

text \<open>
  C3, as stated, fails: a non-nil function compared with itself panics, by the explicit
  check of the \<^verbatim>\<open>reflect.Func\<close> case.
\<close>

theorem DeepCompare_self_func_counterexample:
  "DeepCompare 1 Map.empty example_store (Some someFunc) (Some someFunc) = Some (Inl NonNilFunctions)"
  by (simp add: DeepCompare_def engine_defs reflect_defs example_defs)

text \<open>
  C3, amended. For every non-nil value \<open>a\<close> whose traversal against itself ends within
  \<open>d\<close> nested calls and meets no registered type, no non-nil function, and no complex
  number, channel or unsafe pointer that is read-only or unequal to itself,
  \<^verbatim>\<open>DeepCompare(a, a)\<close> returns 0 (whenever at least \<open>d\<close> nested calls are allowed). The
  traversal stops at slices, maps and addressable arrays and structs, so this covers
  structures that refer to themselves through one of these.
\<close>

theorem DeepCompare_self_zero:
  assumes "selfComparable d c st (ValueOf (Some a))" and "d \<le> n"
  shows "DeepCompare n c st (Some a) (Some a) = Some (Inr 0)"
  using selfComparable_zero[OF assms, of Map.empty]
  by (simp add: DeepCompare_def ValueOf_def compareBool_def)

text \<open>The amended C3 at the node that points to itself.\<close>

theorem DeepCompare_self_zero_witness:
  "selfComparable 2 Map.empty example_store (ValueOf (Some (ptrN 100))) \<and> (2::nat) \<le> 2 \<and>
   DeepCompare 2 Map.empty example_store (Some (ptrN 100)) (Some (ptrN 100)) = Some (Inr 0)"
proof -
  have h: "selfComparable 2 Map.empty example_store (ValueOf (Some (ptrN 100)))"
    by (simp add: numeral_2_eq_2 childrenComparable_def reflect_defs hard_def example_defs)
  from DeepCompare_self_zero[OF h, of 2] h show ?thesis by simp
qed

section \<open>Antisymmetry and maps\<close>

text \<open>
  C4. The maps \<^verbatim>\<open>map[int]int{1: 1}\<close> and \<^verbatim>\<open>map[int]int{2: 1}\<close> have one type and equal
  lengths, and neither comparison panics; yet each orders after the other, whichever
  comes first. The signs are not negations of each other.
\<close>

theorem DeepCompare_maps_not_antisymmetric:
  "DeepCompare 2 Map.empty example_store (Some (mapAt 300)) (Some (mapAt 400)) = Some (Inr 1) \<and>
   DeepCompare 2 Map.empty example_store (Some (mapAt 400)) (Some (mapAt 300)) = Some (Inr 1)"
  by (simp add: DeepCompare_def numeral_2_eq_2 engine_defs reflect_defs example_defs)

section \<open>Nil and empty slices and maps\<close>

lemma signal_remember: "signal (remember k s r) = signal r"
  by (auto simp: signal_def remember_def split: option.splits sum.splits)

lemma signal_makeUsefulPanic_Inr:
  "signal r = Some (Inr x) \<Longrightarrow> signal (makeUsefulPanic v r) = Some (Inr x)"
  by (auto simp: signal_def makeUsefulPanic_def split: option.splits sum.splits panic.splits)

text \<open>A step that no override and no cycle check intercepts returns what the switch returns.\<close>

lemma step_not_intercepted:
  assumes "rv_type v1 = rv_type v2" "c (rv_type v1) = None" "\<not> intercepted v1 v2 visited"
    and "signal (compareShape (deepValueCompare n c st) st v1 v2 visited) = Some (Inr x)"
  shows "signal (deepValueCompare (Suc n) c st (Some v1) (Some v2) visited) = Some (Inr x)"
proof (cases "CanAddr v1 \<and> CanAddr v2 \<and> hard (Kind v1)")
  case True
  with assms(3) have ne: "UnsafeAddr v1 \<noteq> UnsafeAddr v2"
    and miss: "visited (min (UnsafeAddr v1) (UnsafeAddr v2), max (UnsafeAddr v1) (UnsafeAddr v2), rv_type v1) = None"
    by (auto simp: intercepted_def)
  show ?thesis
  proof (cases "UnsafeAddr v1 > UnsafeAddr v2")
    case gt: True
    then have "min (UnsafeAddr v1) (UnsafeAddr v2) = UnsafeAddr v2"
      "max (UnsafeAddr v1) (UnsafeAddr v2) = UnsafeAddr v1"
      by auto
    with miss True ne gt assms(1,2,4) show ?thesis
      by (simp add: Let_def signal_remember signal_makeUsefulPanic_Inr)
  next
    case le: False
    then have "min (UnsafeAddr v1) (UnsafeAddr v2) = UnsafeAddr v1"
      "max (UnsafeAddr v1) (UnsafeAddr v2) = UnsafeAddr v2"
      by auto
    with miss True ne le assms(1,2,4) show ?thesis
      by (simp add: Let_def signal_remember signal_makeUsefulPanic_Inr)
  qed
next
  case False
  with assms(1,2,4) show ?thesis
    by (auto simp: signal_makeUsefulPanic_Inr)
qed

text \<open>The slice and map cases of the switch.\<close>

lemma shape_slice_map:
  assumes "(\<exists>s1 s2. rv_data v1 = VSlice s1 \<and> rv_data v2 = VSlice s2) \<or>
           (\<exists>m1 m2. rv_data v1 = VMap m1 \<and> rv_data v2 = VMap m2)"
  shows "compareShape rec st v1 v2 visited =
     (if isNilOrEmpty st v1 \<or> isNilOrEmpty st v2 then Some (Inr (0, visited))
      else if Len st v1 \<noteq> Len st v2
        then Some (Inr (int (projr (Len st v1)) - int (projr (Len st v2)), visited))
      else if Pointer v1 = Pointer v2 then Some (Inr (0, visited))
      else elementwise rec st v1 v2 visited)"
proof -
  from assms consider (slice) s1 s2 where "rv_data v1 = VSlice s1" "rv_data v2 = VSlice s2"
    | (map) m1 m2 where "rv_data v1 = VMap m1" "rv_data v2 = VMap m2"
    by blast
  then show ?thesis
  proof cases
    case slice
    then show ?thesis
      by (cases s1; cases s2)
         (auto simp: isNilOrEmpty_def compareShape_def elementwise_def compareElems_def Kind_def
            orPanic_def nilOrEmpty_def IsNil_def Len_def Pointer_def)
  next
    case map
    then show ?thesis
      by (cases m1; cases m2)
         (auto simp: isNilOrEmpty_def compareShape_def elementwise_def compareEntries_def Kind_def
            orPanic_def nilOrEmpty_def IsNil_def Len_def Pointer_def MapKeys_def)
  qed
qed

text \<open>
  C5. At a step on two slices, or on two maps, of one type that no override and no
  cycle check intercepts: when at least one operand is nil or empty the step returns 0
  (so a nil one equals an empty one, and a nil-or-empty one equals a non-empty one, with
  no ordering by length). Only when both are non-empty: if their lengths differ, the
  step returns the difference of the lengths; if the lengths are equal and the storage
  is the same, it returns 0; otherwise it returns what the elementwise comparison
  returns.
\<close>

theorem nil_or_empty_step:
  assumes kinds: "(\<exists>s1 s2. rv_data v1 = VSlice s1 \<and> rv_data v2 = VSlice s2) \<or>
                  (\<exists>m1 m2. rv_data v1 = VMap m1 \<and> rv_data v2 = VMap m2)"
    and ty: "rv_type v1 = rv_type v2" and c: "c (rv_type v1) = None"
    and ni: "\<not> intercepted v1 v2 visited"
  shows "(isNilOrEmpty st v1 \<or> isNilOrEmpty st v2 \<longrightarrow>
            signal (deepValueCompare (Suc n) c st (Some v1) (Some v2) visited) = Some (Inr 0)) \<and>
         (\<not> isNilOrEmpty st v1 \<and> \<not> isNilOrEmpty st v2 \<and>
          Len st v1 = Inr l1 \<and> Len st v2 = Inr l2 \<and> l1 \<noteq> l2 \<longrightarrow>
            signal (deepValueCompare (Suc n) c st (Some v1) (Some v2) visited) =
              Some (Inr (int l1 - int l2))) \<and>
         (\<not> isNilOrEmpty st v1 \<and> \<not> isNilOrEmpty st v2 \<and>
          Len st v1 = Len st v2 \<and> Pointer v1 = Pointer v2 \<longrightarrow>
            signal (deepValueCompare (Suc n) c st (Some v1) (Some v2) visited) = Some (Inr 0)) \<and>
         (\<not> isNilOrEmpty st v1 \<and> \<not> isNilOrEmpty st v2 \<and>
          Len st v1 = Len st v2 \<and> Pointer v1 \<noteq> Pointer v2 \<and>
          elementwise (deepValueCompare n c st) st v1 v2 visited = Some (Inr (r, visited')) \<longrightarrow>
            signal (deepValueCompare (Suc n) c st (Some v1) (Some v2) visited) = Some (Inr r))"
proof -
  let ?rec = "deepValueCompare n c st"
  note sh = shape_slice_map[OF kinds, of ?rec st visited]
  note step = step_not_intercepted[where c = c and ?v1.0 = v1 and ?v2.0 = v2
      and visited = visited and n = n and st = st, OF ty c ni]
  show ?thesis
  proof (intro conjI impI)
    assume "isNilOrEmpty st v1 \<or> isNilOrEmpty st v2"
    with sh have "signal (compareShape ?rec st v1 v2 visited) = Some (Inr 0)"
      by (simp add: signal_def)
    then show "signal (deepValueCompare (Suc n) c st (Some v1) (Some v2) visited) = Some (Inr 0)"
      by (rule step)
  next
    assume "\<not> isNilOrEmpty st v1 \<and> \<not> isNilOrEmpty st v2 \<and>
            Len st v1 = Inr l1 \<and> Len st v2 = Inr l2 \<and> l1 \<noteq> l2"
    with sh have "signal (compareShape ?rec st v1 v2 visited) = Some (Inr (int l1 - int l2))"
      by (simp add: signal_def)
    then show "signal (deepValueCompare (Suc n) c st (Some v1) (Some v2) visited) =
            Some (Inr (int l1 - int l2))"
      by (rule step)
  next
    assume "\<not> isNilOrEmpty st v1 \<and> \<not> isNilOrEmpty st v2 \<and>
            Len st v1 = Len st v2 \<and> Pointer v1 = Pointer v2"
    with sh have "signal (compareShape ?rec st v1 v2 visited) = Some (Inr 0)"
      by (simp add: signal_def)
    then show "signal (deepValueCompare (Suc n) c st (Some v1) (Some v2) visited) = Some (Inr 0)"
      by (rule step)
  next
    assume "\<not> isNilOrEmpty st v1 \<and> \<not> isNilOrEmpty st v2 \<and>
            Len st v1 = Len st v2 \<and> Pointer v1 \<noteq> Pointer v2 \<and>
            elementwise ?rec st v1 v2 visited = Some (Inr (r, visited'))"
    with sh have "signal (compareShape ?rec st v1 v2 visited) = Some (Inr r)"
      by (simp add: signal_def)
    then show "signal (deepValueCompare (Suc n) c st (Some v1) (Some v2) visited) = Some (Inr r)"
      by (rule step)
  qed
qed

text \<open>
  C5 at \<^verbatim>\<open>[]int(nil)\<close> against \<^verbatim>\<open>[]int{}\<close>, at \<^verbatim>\<open>[]int(nil)\<close> against \<^verbatim>\<open>[]int{1, 2}\<close>,
  at \<^verbatim>\<open>[]int{1, 2}\<close> against \<^verbatim>\<open>[]int{1}\<close>, at \<^verbatim>\<open>[]int{1, 2}\<close> against itself and at
  \<^verbatim>\<open>[]int{1, 2}\<close> against \<^verbatim>\<open>[]int{1, 1}\<close>.
\<close>

theorem nil_or_empty_step_witness:
  "isNilOrEmpty example_store (asValue (sliceOf None)) \<and>
   isNilOrEmpty example_store (asValue (sliceOf (Some (Slice 700 0 8)))) \<and>
   \<not> isNilOrEmpty example_store (asValue (sliceOf (Some (Slice 500 2 8)))) \<and>
   \<not> intercepted (asValue (sliceOf None)) (asValue (sliceOf (Some (Slice 500 2 8)))) Map.empty \<and>
   signal (deepValueCompare (Suc (Suc 0)) Map.empty example_store
      (Some (asValue (sliceOf None))) (Some (asValue (sliceOf (Some (Slice 700 0 8))))) Map.empty)
     = Some (Inr 0) \<and>
   signal (deepValueCompare (Suc (Suc 0)) Map.empty example_store
      (Some (asValue (sliceOf None))) (Some (asValue (sliceOf (Some (Slice 500 2 8))))) Map.empty)
     = Some (Inr 0) \<and>
   signal (deepValueCompare (Suc (Suc 0)) Map.empty example_store
      (Some (asValue (sliceOf (Some (Slice 500 2 8))))) (Some (asValue (sliceOf (Some (Slice 600 1 8))))) Map.empty)
     = Some (Inr 1) \<and>
   signal (deepValueCompare (Suc (Suc 0)) Map.empty example_store
      (Some (asValue (sliceOf (Some (Slice 500 2 8))))) (Some (asValue (sliceOf (Some (Slice 500 2 8))))) Map.empty)
     = Some (Inr 0) \<and>
   elementwise (deepValueCompare (Suc 0) Map.empty example_store) example_store
      (asValue (sliceOf (Some (Slice 500 2 8)))) (asValue (sliceOf (Some (Slice 800 2 8)))) Map.empty
     = Some (Inr (1, Map.empty)) \<and>
   signal (deepValueCompare (Suc (Suc 0)) Map.empty example_store
      (Some (asValue (sliceOf (Some (Slice 500 2 8))))) (Some (asValue (sliceOf (Some (Slice 800 2 8))))) Map.empty)
     = Some (Inr 1)"
proof -
  let ?nil = "asValue (sliceOf None)"
  let ?empty = "asValue (sliceOf (Some (Slice 700 0 8)))"
  let ?two = "asValue (sliceOf (Some (Slice 500 2 8)))"
  let ?one = "asValue (sliceOf (Some (Slice 600 1 8)))"
  let ?ones = "asValue (sliceOf (Some (Slice 800 2 8)))"
  note defs = intercepted_def asValue_def sliceOf_def CanAddr_def isNilOrEmpty_def
    nilOrEmpty_def IsNil_def Len_def Pointer_def
  have 1: "signal (deepValueCompare (Suc (Suc 0)) Map.empty example_store (Some ?nil) (Some ?empty) Map.empty) = Some (Inr 0)"
    using nil_or_empty_step[where ?v1.0 = "?nil" and ?v2.0 = "?empty" and c = Map.empty
        and visited = Map.empty and st = example_store and n = "Suc 0"]
    by (simp add: defs)
  have 2: "signal (deepValueCompare (Suc (Suc 0)) Map.empty example_store (Some ?nil) (Some ?two) Map.empty) = Some (Inr 0)"
    using nil_or_empty_step[where ?v1.0 = "?nil" and ?v2.0 = "?two" and c = Map.empty
        and visited = Map.empty and st = example_store and n = "Suc 0"]
    by (simp add: defs)
  have 3: "signal (deepValueCompare (Suc (Suc 0)) Map.empty example_store (Some ?two) (Some ?one) Map.empty) = Some (Inr 1)"
    using nil_or_empty_step[where ?v1.0 = "?two" and ?v2.0 = "?one" and c = Map.empty
        and visited = Map.empty and st = example_store and n = "Suc 0" and ?l1.0 = 2 and ?l2.0 = 1]
    by (simp add: defs)
  have 4: "signal (deepValueCompare (Suc (Suc 0)) Map.empty example_store (Some ?two) (Some ?two) Map.empty) = Some (Inr 0)"
    using nil_or_empty_step[where ?v1.0 = "?two" and ?v2.0 = "?two" and c = Map.empty
        and visited = Map.empty and st = example_store and n = "Suc 0"]
    by (simp add: defs)
  have e: "elementwise (deepValueCompare (Suc 0) Map.empty example_store) example_store ?two ?ones Map.empty
     = Some (Inr (1, Map.empty))"
    by (simp add: elementwise_def numeral_2_eq_2 engine_defs reflect_defs example_defs)
  have 5: "signal (deepValueCompare (Suc (Suc 0)) Map.empty example_store (Some ?two) (Some ?ones) Map.empty) = Some (Inr 1)"
    using nil_or_empty_step[where ?v1.0 = "?two" and ?v2.0 = "?ones" and c = Map.empty
        and visited = Map.empty and st = example_store and n = "Suc 0" and r = 1
        and visited' = Map.empty] e
    by (simp add: defs)
  have h: "isNilOrEmpty example_store ?nil" "isNilOrEmpty example_store ?empty"
    "\<not> isNilOrEmpty example_store ?two" "\<not> intercepted ?nil ?two Map.empty"
    by (simp_all add: defs)
  from h 1 2 3 4 e 5 show ?thesis by simp
qed

section \<open>Non-public fields\<close>

text \<open>
  C6. The struct \<^verbatim>\<open>S{a: 1}\<close>, whose only field is non-public and of type \<^verbatim>\<open>int\<close> with no
  override, is compared with \<^verbatim>\<open>S{a: 2}\<close> without a panic: the \<^verbatim>\<open>int\<close> case of the switch
  reads the field and returns -1. Only the kinds of the fallback case test
  \<^verbatim>\<open>CanInterface\<close>: comparing \<^verbatim>\<open>Outer\<close>, whose \<^verbatim>\<open>Inner\<close> holds a non-public
  \<^verbatim>\<open>complex128\<close>, panics with the chain of types from the outermost to the field.
\<close>

theorem DeepCompare_unexported_field:
  "DeepCompare 2 Map.empty example_store (Some (structS 1)) (Some (structS 2)) = Some (Inr (- 1)) \<and>
   DeepCompare 3 Map.empty example_store (Some outer) (Some outer) =
     Some (Inl (UnexportedTypePanic [tOuter, tInner, tComplex]))"
  by (simp add: DeepCompare_def numeral_2_eq_2 numeral_3_eq_3 engine_defs reflect_defs example_defs)

section \<open>Overrides\<close>




section \<open>Registration\<close>

lemma isFunc_Kind: "(Kind (asValue f) = KFunc) = isFunc f"
  by (cases "tv_val f") (simp_all add: Kind_def asValue_def isFunc_def)



lemma AddFunc_unfold:
  "AddFunc c (Some f) =
     (if \<not> isFunc f then Inr (c, Some (ExpectedFunc (tv_type f)))
      else if length (type_in (tv_type f)) \<noteq> 2 then Inr (c, Some (ExpectedTwoIn (tv_type f)))
      else if length (type_out (tv_type f)) \<noteq> 1 then Inr (c, Some (ExpectedOneOut (tv_type f)))
      else if type_in (tv_type f) ! 0 \<noteq> type_in (tv_type f) ! 1
        then Inr (c, Some (ExpectedSameArgs (tv_type f)))
      else if type_out (tv_type f) ! 0 \<noteq> intType then Inr (c, Some (ExpectedIntReturn (tv_type f)))
      else Inr (c(type_in (tv_type f) ! 0 \<mapsto> asValue f), None))"
  using isFunc_Kind[of f]
  by (simp add: AddFunc_def ValueOf_def asValue_def Let_def)

text \<open>A call of \<^verbatim>\<open>AddFunc\<close> that returns an error leaves the registry as it was.\<close>

lemma AddFunc_error_unchanged:
  assumes "AddFunc c f = Inr (c', Some e)"
  shows "c' = c"
proof (cases f)
  case None
  with assms show ?thesis by (simp add: AddFunc_def ValueOf_def)
next
  case (Some a)
  with assms show ?thesis by (auto simp: AddFunc_unfold split: if_splits)
qed



section \<open>Batch registration and construction\<close>

lemma AddFuncs_append:
  "AddFuncs c good = Inr (c', None) \<Longrightarrow> AddFuncs c (good @ rest) = AddFuncs c' rest"
proof (induction good arbitrary: c)
  case Nil
  then show ?case by simp
next
  case (Cons f good)
  then show ?case
    by (cases "AddFunc c f") (auto split: option.splits)
qed

text \<open>
  C8, as stated, fails: when a function of the list fails validation, \<^verbatim>\<open>NewComparisons\<close>
  returns the nil registry with the error, not the registry that holds the functions
  registered before it.
\<close>

theorem NewComparisons_nil_counterexample:
  "AddFuncs Map.empty [Some comparePets, Some (funcOf [tPet, tString] [intType])] =
     Inr (petComparisons, Some (ExpectedSameArgs (tv_type (funcOf [tPet, tString] [intType])))) \<and>
   NewComparisons [Some comparePets, Some (funcOf [tPet, tString] [intType])] =
     Inr (None, Some (ExpectedSameArgs (tv_type (funcOf [tPet, tString] [intType]))))"
  by (simp add: NewComparisons_def AddFunc_unfold isFunc_def example_defs)

text \<open>
  C8, amended. When the functions \<open>good\<close> pass validation and the next one, \<open>bad\<close>, fails
  it with the error \<open>e\<close>: \<^verbatim>\<open>AddFuncs\<close> stops there, returns \<open>e\<close> and leaves in the registry
  what \<open>good\<close> registered, whatever follows \<open>bad\<close> in the list; \<^verbatim>\<open>NewComparisons\<close> returns
  the nil registry together with \<open>e\<close>; \<^verbatim>\<open>NewComparisonsOrDie\<close> panics with \<open>e\<close>.
\<close>

theorem batch_registration:
  assumes good: "AddFuncs c good = Inr (c', None)"
    and bad: "AddFunc c' bad = Inr (c'', Some e)"
  shows "AddFuncs c (good @ bad # rest) = Inr (c', Some e) \<and>
         (c = Map.empty \<longrightarrow>
            NewComparisons (good @ bad # rest) = Inr (None, Some e) \<and>
            NewComparisonsOrDie (good @ bad # rest) = Inl (ErrorPanic e))"
proof -
  from AddFunc_error_unchanged[OF bad] have "c'' = c'" .
  with bad have "AddFuncs c' (bad # rest) = Inr (c', Some e)" by simp
  with AddFuncs_append[OF good, of "bad # rest"]
  have 1: "AddFuncs c (good @ bad # rest) = Inr (c', Some e)" by simp
  then show ?thesis
    by (auto simp: NewComparisons_def NewComparisonsOrDie_def)
qed

text \<open>
  The amended C8 at \<^verbatim>\<open>comparePets\<close>, followed by a function of two different parameter
  types and by a function that would pass.
\<close>

theorem batch_registration_witness:
  "AddFuncs Map.empty [Some comparePets] = Inr (petComparisons, None) \<and>
   AddFunc petComparisons (Some (funcOf [tPet, tString] [intType])) =
     Inr (petComparisons, Some (ExpectedSameArgs (tv_type (funcOf [tPet, tString] [intType])))) \<and>
   AddFuncs Map.empty ([Some comparePets] @ Some (funcOf [tPet, tString] [intType]) # [Some (funcOf [tString, tString] [intType])]) =
     Inr (petComparisons, Some (ExpectedSameArgs (tv_type (funcOf [tPet, tString] [intType])))) \<and>
   NewComparisons ([Some comparePets] @ Some (funcOf [tPet, tString] [intType]) # [Some (funcOf [tString, tString] [intType])]) =
     Inr (None, Some (ExpectedSameArgs (tv_type (funcOf [tPet, tString] [intType])))) \<and>
   NewComparisonsOrDie ([Some comparePets] @ Some (funcOf [tPet, tString] [intType]) # [Some (funcOf [tString, tString] [intType])]) =
     Inl (ErrorPanic (ExpectedSameArgs (tv_type (funcOf [tPet, tString] [intType]))))"
proof -
  have g: "AddFuncs Map.empty [Some comparePets] = Inr (petComparisons, None)"
    by (simp add: AddFunc_unfold isFunc_def example_defs)
  have b: "AddFunc petComparisons (Some (funcOf [tPet, tString] [intType])) =
     Inr (petComparisons, Some (ExpectedSameArgs (tv_type (funcOf [tPet, tString] [intType]))))"
    by (simp add: AddFunc_unfold isFunc_def example_defs)
  from batch_registration[OF g b, of "[Some (funcOf [tString, tString] [intType])]"] g b
  show ?thesis by simp
qed

section \<open>A key that the other map lacks\<close>






end
